theory Spec2Isabelle
  imports Complex_Main
begin

section \<open>Data model\<close>

text \<open>
  A JavaScript number. Finite values are kept as exact rationals (every double is one),
  so comparisons and truncation are the exact ones; the three special values are explicit.
\<close>

datatype jsnum = Fin rat | NaN | PosInf | NegInf

text \<open>
  A bookmark object \<open>{ time, note }\<close>; the property \<open>note\<close> is the field \<open>note_text\<close>. A
  field is \<open>None\<close> when the object has no such property (reading it gives \<open>undefined\<close>).
\<close>

record bookmark =
  time :: "jsnum option"
  note_text :: "string option"

text \<open>An array slot: a hole of a sparse array, or an object.\<close>

datatype slot = Hole | Item bookmark

text \<open>
  A value stored under an identifier: an array, or anything else (kept as its text).
\<close>

datatype stored = Arr "slot list" | NonArr string

datatype storage_op = OpGet | OpSet

datatype storage_error = LastError

text \<open>
  The extension's local storage: the object under the key \<open>timestamps\<close>, as a map from
  property keys to values (\<open>None\<close> when the key is absent), whether a read or a write
  reports \<open>chrome.runtime.lastError\<close>, and the calls made so far.
\<close>

record world =
  timestamps :: "(string \<Rightarrow> stored option) option"
  getFails :: bool
  setFails :: bool
  oplog :: "storage_op list"

text \<open>The module state of content.js that the bookmark store and the overlay use.\<close>

record session =
  videoId :: "string option"
  savedTimestamps :: "slot list"
  container :: bool

section \<open>Storage\<close>

text \<open>\<open>!id\<close> for an identifier: \<open>null\<close> and the empty string are falsy.\<close>

definition falsy :: "string option \<Rightarrow> bool" where
  "falsy v = (case v of None \<Rightarrow> True | Some s \<Rightarrow> s = [])"

text \<open>The property key \<open>all[id]\<close> uses: \<open>null\<close> becomes the string \<open>null\<close>.\<close>

definition propertyKey :: "string option \<Rightarrow> string" where
  "propertyKey v = (case v of None \<Rightarrow> ''null'' | Some s \<Rightarrow> s)"

text \<open>
  \<open>storageGet({ timestamps: {} })\<close> followed by \<open>r.timestamps || {}\<close>: the stored
  mapping, the empty one when the key is absent; rejected when the call fails.
\<close>

definition persistedMapping :: "world \<Rightarrow> string \<Rightarrow> stored option" where
  "persistedMapping w = (case timestamps w of None \<Rightarrow> Map.empty | Some m \<Rightarrow> m)"

definition storageGet :: "world \<Rightarrow> (storage_error + (string \<Rightarrow> stored option)) \<times> world" where
  "storageGet w =
     (let w' = w\<lparr>oplog := oplog w @ [OpGet]\<rparr>
      in if getFails w then (Inl LastError, w')
         else (Inr (persistedMapping w), w'))"

definition storageSet :: "(string \<Rightarrow> stored option) \<Rightarrow> world \<Rightarrow> (storage_error + unit) \<times> world" where
  "storageSet m w =
     (let w' = w\<lparr>oplog := oplog w @ [OpSet]\<rparr>
      in if setFails w then (Inl LastError, w')
         else (Inr (), w'\<lparr>timestamps := Some m\<rparr>))"

text \<open>
  The map stands for the own properties of the plain object \<open>all\<close>. Reading \<open>all[id]\<close> at
  a name the object does not own gives \<open>undefined\<close> or something inherited from
  \<open>Object.prototype\<close>, never an array, so \<open>Array.isArray\<close> is true exactly on an own
  property that holds an array.
\<close>

definition loadSavedTimestampsForVideo :: "string option \<Rightarrow> session \<times> world \<Rightarrow> session \<times> world" where
  "loadSavedTimestampsForVideo vid sw =
     (case sw of (s, w) \<Rightarrow>
        if falsy vid then (s\<lparr>savedTimestamps := []\<rparr>, w)
        else (case storageGet w of
                (Inl err, w') \<Rightarrow> (s\<lparr>savedTimestamps := []\<rparr>, w')
              | (Inr all, w') \<Rightarrow>
                  (s\<lparr>savedTimestamps :=
                       (case all (propertyKey vid) of Some (Arr xs) \<Rightarrow> xs | _ \<Rightarrow> [])\<rparr>, w')))"

text \<open>
  The assignment \<open>all[id] = savedTimestamps\<close> on the plain object \<open>all\<close>. It creates or
  overwrites the own property of that name, with one exception: at the name \<open>__proto__\<close>,
  unless the object already owns a property so named, the assignment runs the setter
  inherited from \<open>Object.prototype\<close>, which makes the array the prototype of \<open>all\<close> and
  gives it no own property. The object then written back has the own properties it had.
\<close>

definition assignProperty ::
  "(string \<Rightarrow> stored option) \<Rightarrow> string \<Rightarrow> stored \<Rightarrow> string \<Rightarrow> stored option" where
  "assignProperty obj key v =
     (if key = ''__proto__'' \<and> obj key = None then obj else obj(key \<mapsto> v))"

definition persistSavedTimestampsForVideo :: "string option \<Rightarrow> session \<times> world \<Rightarrow> session \<times> world" where
  "persistSavedTimestampsForVideo vid sw =
     (case sw of (s, w) \<Rightarrow>
        (case storageGet w of
           (Inl err, w') \<Rightarrow> (s, w')
         | (Inr all, w') \<Rightarrow>
             (s, snd (storageSet
                        (assignProperty all (propertyKey vid) (Arr (savedTimestamps s))) w'))))"

section \<open>Identity resolver\<close>

text \<open>
  What \<open>new URL(urlString)\<close> exposes to \<open>getVideoIdFromUrl\<close>. The parser itself belongs to
  the browser, so it is a parameter \<open>parseURL\<close> of the functions below; it answers \<open>None\<close>
  where the constructor throws.
\<close>

record url =
  hostname :: string
  pathname :: string
  searchParams :: "(string \<times> string) list"

datatype exn = TypeError

text \<open>\<open>searchParams.get(name)\<close>: the first value under the name, or \<open>null\<close>.\<close>

definition searchParamsGet :: "(string \<times> string) list \<Rightarrow> string \<Rightarrow> string option" where
  "searchParamsGet ps name = map_of ps name"

text \<open>
  The regular expressions \<open>/\/embed\/([^\/\?]+)/\<close> and \<open>/\/shorts\/([^\/\?]+)/\<close>: the
  literal, then the longest non-empty run of characters other than \<open>/\<close> and \<open>?\<close>, tried at
  every position from the left; the result is the captured group.
\<close>

definition isPathStop :: "char \<Rightarrow> bool" where
  "isPathStop c = (c = CHR ''/'' \<or> c = CHR ''?'')"

definition matchAt :: "string \<Rightarrow> string \<Rightarrow> string option" where
  "matchAt lit s =
     (if take (length lit) s = lit
      then (let cap = takeWhile (\<lambda>c. \<not> isPathStop c) (drop (length lit) s)
            in if cap = [] then None else Some cap)
      else None)"

fun regexMatch :: "string \<Rightarrow> string \<Rightarrow> string option" where
  "regexMatch lit [] = matchAt lit []"
| "regexMatch lit (c # cs) =
     (case matchAt lit (c # cs) of Some m \<Rightarrow> Some m | None \<Rightarrow> regexMatch lit cs)"

text \<open>\<open>str.split(sep)\<close> for a one-character separator, and \<open>str.includes(needle)\<close>.\<close>

fun splitOn :: "char \<Rightarrow> string \<Rightarrow> string list" where
  "splitOn sep [] = [[]]"
| "splitOn sep (c # cs) =
     (if c = sep then [] # splitOn sep cs
      else (case splitOn sep cs of [] \<Rightarrow> [[c]] | x # xs \<Rightarrow> (c # x) # xs))"

fun strIncludes :: "string \<Rightarrow> string \<Rightarrow> bool" where
  "strIncludes [] needle = (needle = [])"
| "strIncludes (c # cs) needle = (take (length needle) (c # cs) = needle \<or> strIncludes cs needle)"

text \<open>The four places \<open>getVideoIdFromUrl\<close> looks at, each as the source computes it.\<close>

definition queryParam :: "url \<Rightarrow> string option" where
  "queryParam u =
     (if \<not> falsy (searchParamsGet (searchParams u) ''v'')
      then searchParamsGet (searchParams u) ''v'' else None)"

definition embedMatch :: "url \<Rightarrow> string option" where
  "embedMatch u = regexMatch ''/embed/'' (pathname u)"

definition shortsMatch :: "url \<Rightarrow> string option" where
  "shortsMatch u = regexMatch ''/shorts/'' (pathname u)"

definition shortLink :: "url \<Rightarrow> string option" where
  "shortLink u =
     (if strIncludes (hostname u) ''youtu.be''
      then (case filter (\<lambda>x. x \<noteq> []) (splitOn CHR ''/'' (pathname u)) of
              [] \<Rightarrow> None
            | x # xs \<Rightarrow> if x = [] then None else Some x)
      else None)"

text \<open>The body of the \<open>try\<close> block, in the order of its statements.\<close>

definition tryResolve :: "(string \<Rightarrow> url option) \<Rightarrow> string \<Rightarrow> exn + string option" where
  "tryResolve parseURL urlString =
     (case parseURL urlString of
        None \<Rightarrow> Inl TypeError
      | Some u \<Rightarrow>
          Inr (case queryParam u of
                 Some v \<Rightarrow> Some v
               | None \<Rightarrow>
                   (case embedMatch u of
                      Some m \<Rightarrow> Some m
                    | None \<Rightarrow>
                        (case shortsMatch u of
                           Some m \<Rightarrow> Some m
                         | None \<Rightarrow> shortLink u))))"

definition getVideoIdFromUrl :: "(string \<Rightarrow> url option) \<Rightarrow> string \<Rightarrow> string option" where
  "getVideoIdFromUrl parseURL urlString =
     (case tryResolve parseURL urlString of Inl e \<Rightarrow> None | Inr r \<Rightarrow> r)"

text \<open>
  The order the specification gives (query parameter, short link, embedded player,
  short form), for comparison with the order of the source.
\<close>

definition firstMatch :: "string option list \<Rightarrow> string option" where
  "firstMatch ms = (case filter (\<lambda>m. m \<noteq> None) ms of [] \<Rightarrow> None | m # rest \<Rightarrow> m)"

definition resolveIdentifier_spec_order :: "url \<Rightarrow> string option" where
  "resolveIdentifier_spec_order u =
     firstMatch [queryParam u, shortLink u, embedMatch u, shortsMatch u]"

section \<open>Numbers and text\<close>

definition digitChar :: "nat \<Rightarrow> char" where
  "digitChar d = ''0123456789'' ! d"

function digits :: "nat \<Rightarrow> string" where
  "digits n = (if n < 10 then [digitChar n] else digits (n div 10) @ [digitChar (n mod 10)])"
  by pat_completeness auto
termination
  by (relation "measure id") auto

declare digits.simps [simp del]

definition intToString :: "int \<Rightarrow> string" where
  "intToString i = (if i < 0 then CHR ''-'' # digits (nat (- i)) else digits (nat i))"

definition isInteger :: "rat \<Rightarrow> bool" where
  "isInteger q = (of_int \<lfloor>q\<rfloor> = q)"

text \<open>
  Number to string, as a template literal and \<open>toString()\<close> do it. An integer up to
  \<open>2^53\<close> in magnitude prints as its decimal digits; how any other finite number prints
  is the platform's shortest round-trip rendering, taken as the parameter \<open>other\<close>.
\<close>

definition numberToString :: "(rat \<Rightarrow> string) \<Rightarrow> jsnum \<Rightarrow> string" where
  "numberToString other x =
     (case x of
        NaN \<Rightarrow> ''NaN''
      | PosInf \<Rightarrow> ''Infinity''
      | NegInf \<Rightarrow> ''-Infinity''
      | Fin q \<Rightarrow> if isInteger q \<and> \<bar>q\<bar> \<le> 2 ^ 53 then intToString \<lfloor>q\<rfloor> else other q)"

text \<open>\<open>padStart(2, "0")\<close>, and the remainder \<open>%\<close>, which takes the sign of the dividend.\<close>

definition padStart2 :: "string \<Rightarrow> string" where
  "padStart2 s = replicate (2 - length s) CHR ''0'' @ s"

definition jsRem :: "int \<Rightarrow> int \<Rightarrow> int" where
  "jsRem a b = (if a < 0 then - ((- a) mod b) else a mod b)"

text \<open>
  \<open>formatTime\<close>. On a finite number the arithmetic is the exact one (as the doubles'
  is for integers below \<open>2^53\<close>); the special values give what the source prints.
\<close>

definition formatTime :: "(rat \<Rightarrow> string) \<Rightarrow> jsnum \<Rightarrow> string" where
  "formatTime other seconds =
     (case seconds of
        NaN \<Rightarrow> ''NaN:NaN''
      | PosInf \<Rightarrow> ''Infinity:NaN:NaN''
      | NegInf \<Rightarrow> ''NaN:NaN''
      | Fin q \<Rightarrow>
          (let s = \<lfloor>q\<rfloor>;
               hrs = s div 3600;
               mins = jsRem s 3600 div 60;
               secs = jsRem s 60;
               str = (\<lambda>k. numberToString other (Fin (of_int k)))
           in (if hrs > 0 then padStart2 (str hrs) @ '':'' else [])
              @ padStart2 (str mins) @ '':'' @ padStart2 (str secs)))"

text \<open>
  \<open>trim()\<close>, and the class \<open>\s\<close> below. A character stands for a code unit below 256:
  the white space there is the ASCII one and the no-break space \<open>U+00A0\<close>; the Unicode
  white space beyond it has no 8-bit character.
\<close>

definition isWhiteSpace :: "char \<Rightarrow> bool" where
  "isWhiteSpace c = (c \<in> set [CHR 0x09, CHR 0x0A, CHR 0x0B, CHR 0x0C, CHR 0x0D, CHR 0x20, CHR 0xA0])"

definition trim :: "string \<Rightarrow> string" where
  "trim s = rev (dropWhile isWhiteSpace (rev (dropWhile isWhiteSpace s)))"

section \<open>Overlay container\<close>

text \<open>
  What the functions below read from the host page: the location, whether the side panel
  \<open>#secondary\<close> exists, the text of \<open>h1.title\<close> (\<open>None\<close> without such an element) and
  \<open>document.title\<close>. Of the overlay, the session records whether the module variable
  \<open>container\<close> holds an element; the rows drawn inside it and the markers on the scrub
  bar are not part of the model.
\<close>

record page =
  href :: string
  secondary :: bool
  h1Title :: "string option"
  docTitle :: string

definition destroyContainer :: "session \<Rightarrow> session" where
  "destroyContainer s = (if container s then s\<lparr>container := False\<rparr> else s)"

definition createContainerIfNeeded :: "page \<Rightarrow> session \<Rightarrow> session" where
  "createContainerIfNeeded pg s =
     (if falsy (videoId s) then s
      else if container s then s
      else if \<not> secondary pg then s
      else s\<lparr>container := True\<rparr>)"

text \<open>
  \<open>renderTimestampList\<close> first calls \<open>createContainerIfNeeded\<close>; rebuilding the rows
  changes nothing the session records. Where no container can be made the source fails
  at this point with a \<open>TypeError\<close>; every caller has changed the list and the storage
  before it renders, so the session returned here is the one the failure leaves behind.
\<close>

definition renderTimestampList :: "page \<Rightarrow> session \<Rightarrow> session" where
  "renderTimestampList pg s = createContainerIfNeeded pg s"

section \<open>Array operations on the in-memory list\<close>

text \<open>The comparisons \<open>index < c\<close> and \<open>index >= c\<close> against a finite number: false on \<open>NaN\<close>.\<close>

definition numLess :: "jsnum \<Rightarrow> rat \<Rightarrow> bool" where
  "numLess x c = (case x of Fin q \<Rightarrow> q < c | NegInf \<Rightarrow> True | _ \<Rightarrow> False)"

definition numGreaterEq :: "jsnum \<Rightarrow> rat \<Rightarrow> bool" where
  "numGreaterEq x c = (case x of Fin q \<Rightarrow> c \<le> q | PosInf \<Rightarrow> True | _ \<Rightarrow> False)"

datatype intOrInfinity = MinusInfinity | Integer int | PlusInfinity

text \<open>\<open>ToIntegerOrInfinity\<close> of the language: \<open>NaN\<close> becomes 0, a fraction is truncated.\<close>

definition toIntegerOrInfinity :: "jsnum \<Rightarrow> intOrInfinity" where
  "toIntegerOrInfinity x =
     (case x of
        NaN \<Rightarrow> Integer 0
      | PosInf \<Rightarrow> PlusInfinity
      | NegInf \<Rightarrow> MinusInfinity
      | Fin q \<Rightarrow> Integer (if q < 0 then \<lceil>q\<rceil> else \<lfloor>q\<rfloor>))"

text \<open>\<open>array.splice(start, 1)\<close>: the array that is left.\<close>

definition spliceStart :: "nat \<Rightarrow> jsnum \<Rightarrow> nat" where
  "spliceStart len start =
     (case toIntegerOrInfinity start of
        MinusInfinity \<Rightarrow> 0
      | PlusInfinity \<Rightarrow> len
      | Integer k \<Rightarrow> if k < 0 then nat (max (int len + k) 0) else nat (min k (int len)))"

definition spliceOne :: "jsnum \<Rightarrow> 'a list \<Rightarrow> 'a list" where
  "spliceOne start xs =
     (let a = spliceStart (length xs) start;
          d = min 1 (length xs - a)
      in take a xs @ drop (a + d) xs)"

text \<open>
  \<open>array[idx]\<close> read and written. A number is an array index when it is an integer from 0
  to \<open>2^32 - 2\<close>; a write at or past the length extends the array, leaving holes before
  the new element. Any other number names an ordinary property of the array object,
  which is not an element of the list: reading it gives \<open>undefined\<close> here.
\<close>

definition arrayIndex :: "jsnum \<Rightarrow> nat option" where
  "arrayIndex x =
     (case x of
        Fin q \<Rightarrow> if isInteger q \<and> 0 \<le> q \<and> q < 2 ^ 32 - 1 then Some (nat \<lfloor>q\<rfloor>) else None
      | _ \<Rightarrow> None)"

definition arrayGet :: "slot list \<Rightarrow> jsnum \<Rightarrow> bookmark option" where
  "arrayGet xs x =
     (case arrayIndex x of
        None \<Rightarrow> None
      | Some i \<Rightarrow>
          if i < length xs then (case xs ! i of Hole \<Rightarrow> None | Item b \<Rightarrow> Some b) else None)"

definition arraySet :: "slot list \<Rightarrow> jsnum \<Rightarrow> slot \<Rightarrow> slot list" where
  "arraySet xs x v =
     (case arrayIndex x of
        None \<Rightarrow> xs
      | Some i \<Rightarrow>
          if i < length xs then xs[i := v]
          else xs @ replicate (i - length xs) Hole @ [v])"

section \<open>Timestamps\<close>

text \<open>
  \<open>saveTimestamp(time, note = "")\<close>; the note is \<open>None\<close> when the caller passes none.
\<close>

definition saveTimestamp :: "page \<Rightarrow> jsnum \<Rightarrow> string option \<Rightarrow> session \<times> world \<Rightarrow> session \<times> world" where
  "saveTimestamp pg t n sw =
     (case sw of (s, w) \<Rightarrow>
        if falsy (videoId s) then (s, w)
        else (let item = \<lparr>time = Some t, note_text = Some (case n of None \<Rightarrow> [] | Some x \<Rightarrow> x)\<rparr>;
                  s1 = s\<lparr>savedTimestamps := savedTimestamps s @ [Item item]\<rparr>;
                  r = persistSavedTimestampsForVideo (videoId s1) (s1, w)
              in (renderTimestampList pg (fst r), snd r)))"

definition deleteTimestamp :: "page \<Rightarrow> jsnum \<Rightarrow> session \<times> world \<Rightarrow> session \<times> world" where
  "deleteTimestamp pg index sw =
     (case sw of (s, w) \<Rightarrow>
        if numLess index 0 \<or> numGreaterEq index (of_nat (length (savedTimestamps s))) then (s, w)
        else (let s1 = s\<lparr>savedTimestamps := spliceOne index (savedTimestamps s)\<rparr>;
                  r = persistSavedTimestampsForVideo (videoId s1) (s1, w)
              in (renderTimestampList pg (fst r), snd r)))"

text \<open>
  The \<open>focusout\<close> handler of the list, which commits a note: \<open>isNoteInput\<close> is
  \<open>e.target.matches(".timestamp-note-input")\<close>, \<open>idx\<close> is \<open>Number(li.dataset.index)\<close> and
  \<open>inputValue\<close> the text of the field.
\<close>

definition noteFocusout :: "page \<Rightarrow> bool \<Rightarrow> jsnum \<Rightarrow> string \<Rightarrow> session \<times> world \<Rightarrow> session \<times> world" where
  "noteFocusout pg isNoteInput idx inputValue sw =
     (case sw of (s, w) \<Rightarrow>
        if \<not> isNoteInput then (s, w)
        else (let newNote = trim inputValue;
                  obj = (case arrayGet (savedTimestamps s) idx of
                           None \<Rightarrow> \<lparr>time = None, note_text = Some newNote\<rparr>
                         | Some b \<Rightarrow> b\<lparr>note_text := Some newNote\<rparr>);
                  s1 = s\<lparr>savedTimestamps := arraySet (savedTimestamps s) idx (Item obj)\<rparr>;
                  r = persistSavedTimestampsForVideo (videoId s1) (s1, w)
              in (renderTimestampList pg (fst r), snd r)))"

section \<open>Export\<close>

definition escapeQuotes :: "string \<Rightarrow> string" where
  "escapeQuotes s = concat (map (\<lambda>c. if c = CHR 0x22 then [CHR 0x22, CHR 0x22] else [c]) s)"

definition csvHeader :: string where
  "csvHeader = ''TimeSeconds,TimeFormatted,Note'' @ [CHR 0x0A]"

text \<open>
  One pass of the \<open>forEach\<close> body: \<open>s.time\<close> in a template literal (\<open>undefined\<close> when the
  object has no time), \<open>formatTime(s.time)\<close> (where \<open>undefined\<close> counts as \<open>NaN\<close>), and the
  note with its quotes doubled.
\<close>

definition csvRow :: "(rat \<Rightarrow> string) \<Rightarrow> bookmark \<Rightarrow> string" where
  "csvRow other b =
     (let note = escapeQuotes (case note_text b of None \<Rightarrow> [] | Some n \<Rightarrow> n)
      in (case time b of None \<Rightarrow> ''undefined'' | Some t \<Rightarrow> numberToString other t)
         @ [CHR '','', CHR 0x22]
         @ formatTime other (case time b of None \<Rightarrow> NaN | Some t \<Rightarrow> t)
         @ [CHR 0x22, CHR '','', CHR 0x22]
         @ note
         @ [CHR 0x22, CHR 0x0A])"

text \<open>The loop \<open>savedTimestamps.forEach(...)\<close> appending to \<open>csv\<close>; it skips holes.\<close>

definition csvText :: "(rat \<Rightarrow> string) \<Rightarrow> slot list \<Rightarrow> string" where
  "csvText other xs =
     foldl (\<lambda>csv sl. case sl of Hole \<Rightarrow> csv | Item b \<Rightarrow> csv @ csvRow other b) csvHeader xs"

definition orElse :: "string option \<Rightarrow> string \<Rightarrow> string" where
  "orElse a b = (case a of None \<Rightarrow> b | Some s \<Rightarrow> if s = [] then b else s)"

definition isWordChar :: "char \<Rightarrow> bool" where
  "isWordChar c =
     (let k = of_char c :: nat
      in (48 \<le> k \<and> k \<le> 57) \<or> (65 \<le> k \<and> k \<le> 90) \<or> (97 \<le> k \<and> k \<le> 122) \<or> k = 95)"

definition sanitizeFilename :: "string \<Rightarrow> string" where
  "sanitizeFilename s =
     take 60 (trim (map (\<lambda>c. if isWordChar c \<or> isWhiteSpace c \<or> c = CHR ''-'' then c else CHR ''_'')
                        (orElse (Some s) ''export'')))"

datatype export_result = Alert string | Download string string

definition exportTimestampsAsCSV :: "(rat \<Rightarrow> string) \<Rightarrow> page \<Rightarrow> session \<Rightarrow> export_result" where
  "exportTimestampsAsCSV other pg s =
     (if savedTimestamps s = [] then Alert ''No timestamps to export.''
      else (let videoTitle =
                  trim (orElse (h1Title pg) (orElse (Some (docTitle pg))
                          (orElse (videoId s) ''timestamps'')));
                filename = ''timestamps_'' @ sanitizeFilename videoTitle @ ''.csv''
            in Download filename (csvText other (savedTimestamps s))))"

section \<open>Navigation\<close>

text \<open>
  \<open>onUrlChange\<close>. Locating the playback element, binding its listeners and drawing the
  markers change nothing the session records and are left out.
\<close>

definition onUrlChange :: "(string \<Rightarrow> url option) \<Rightarrow> page \<Rightarrow> session \<times> world \<Rightarrow> session \<times> world" where
  "onUrlChange parseURL pg sw =
     (case sw of (s, w) \<Rightarrow>
        (let newId = getVideoIdFromUrl parseURL (href pg)
         in if newId = videoId s then (s, w)
            else (let s1 = s\<lparr>videoId := newId\<rparr>
                  in if falsy (videoId s1)
                     then (destroyContainer (s1\<lparr>savedTimestamps := []\<rparr>), w)
                     else (let r = loadSavedTimestampsForVideo (videoId s1) (s1, w)
                           in (renderTimestampList pg (createContainerIfNeeded pg (fst r)), snd r)))))"

section \<open>Index ranges and example values\<close>

text \<open>The number \<open>x\<close> lies in the interval \<open>[0, n)\<close>.\<close>

definition withinRange :: "jsnum \<Rightarrow> nat \<Rightarrow> bool" where
  "withinRange x n = (case x of Fin q \<Rightarrow> 0 \<le> q \<and> q < of_nat n | _ \<Rightarrow> False)"

text \<open>The two bookmarks of the export scenario, and small states to run the operations on.\<close>

definition bookmarkAt5 :: bookmark where
  "bookmarkAt5 = \<lparr>time = Some (Fin 5), note_text = Some []\<rparr>"

definition bookmarkIntro :: bookmark where
  "bookmarkIntro = \<lparr>time = Some (Fin 130), note_text = Some ''intro''\<rparr>"

definition freshStorage :: world where
  "freshStorage = \<lparr>timestamps = None, getFails = False, setFails = False, oplog = []\<rparr>"

definition storageWithOther :: world where
  "storageWithOther =
     \<lparr>timestamps = Some [''other'' \<mapsto> Arr [Item bookmarkIntro], ''broken'' \<mapsto> NonArr ''42''],
      getFails = False, setFails = False, oplog = []\<rparr>"

definition watching :: "slot list \<Rightarrow> session" where
  "watching xs = \<lparr>videoId = Some ''abc123'', savedTimestamps = xs, container = True\<rparr>"

definition pageAt :: "string \<Rightarrow> page" where
  "pageAt location = \<lparr>href = location, secondary = True, h1Title = Some ''Demo'', docTitle = ''Demo - YouTube''\<rparr>"

text \<open>What the URL parser answers on the addresses used as examples; it rejects any other text.\<close>

definition exampleParse :: "string \<Rightarrow> url option" where
  "exampleParse a =
     (if a = ''https://www.youtube.com/watch?v=abc123''
      then Some \<lparr>hostname = ''www.youtube.com'', pathname = ''/watch'', searchParams = [(''v'', ''abc123'')]\<rparr>
      else if a = ''https://youtu.be/abc123''
      then Some \<lparr>hostname = ''youtu.be'', pathname = ''/abc123'', searchParams = []\<rparr>
      else if a = ''https://www.youtube.com/embed/abc123''
      then Some \<lparr>hostname = ''www.youtube.com'', pathname = ''/embed/abc123'', searchParams = []\<rparr>
      else if a = ''https://www.youtube.com/shorts/abc123''
      then Some \<lparr>hostname = ''www.youtube.com'', pathname = ''/shorts/abc123'', searchParams = []\<rparr>
      else if a = ''https://youtu.be/embed/abc123''
      then Some \<lparr>hostname = ''youtu.be'', pathname = ''/embed/abc123'', searchParams = []\<rparr>
      else if a = ''https://www.youtube.com/''
      then Some \<lparr>hostname = ''www.youtube.com'', pathname = ''/'', searchParams = []\<rparr>
      else None)"

section \<open>Storage: auxiliary facts\<close>

lemma falsy_Some [simp]: "falsy (Some x) = (x = [])"
  by (simp add: falsy_def)

lemma falsy_None [simp]: "falsy None"
  by (simp add: falsy_def)

lemma persistedMapping_update [simp]:
  "persistedMapping (w\<lparr>timestamps := Some m\<rparr>) = m"
  "persistedMapping (w\<lparr>oplog := l\<rparr>) = persistedMapping w"
  by (simp_all add: persistedMapping_def)

lemma persist_session: "fst (persistSavedTimestampsForVideo vid (s, w)) = s"
  by (simp add: persistSavedTimestampsForVideo_def storageGet_def Let_def)

text \<open>What a call of persist leaves in the storage, for each way its two calls can end.\<close>

lemma persist_world:
  "snd (persistSavedTimestampsForVideo vid (s, w)) =
     (if getFails w then w\<lparr>oplog := oplog w @ [OpGet]\<rparr>
      else if setFails w then w\<lparr>oplog := oplog w @ [OpGet, OpSet]\<rparr>
      else w\<lparr>oplog := oplog w @ [OpGet, OpSet],
             timestamps :=
               Some (assignProperty (persistedMapping w) (propertyKey vid)
                       (Arr (savedTimestamps s)))\<rparr>)"
  by (simp add: persistSavedTimestampsForVideo_def storageGet_def storageSet_def Let_def
        persistedMapping_def)

lemma load_fst:
  "fst (loadSavedTimestampsForVideo vid (s, w)) =
     s\<lparr>savedTimestamps :=
         (if falsy vid \<or> getFails w then []
          else (case persistedMapping w (propertyKey vid) of Some (Arr xs) \<Rightarrow> xs | _ \<Rightarrow> []))\<rparr>"
  by (simp add: loadSavedTimestampsForVideo_def storageGet_def Let_def)

lemma load_list:
  "savedTimestamps (fst (loadSavedTimestampsForVideo vid (s, w))) =
     (if falsy vid \<or> getFails w then []
      else (case persistedMapping w (propertyKey vid) of Some (Arr xs) \<Rightarrow> xs | _ \<Rightarrow> []))"
  by (simp add: load_fst)

text \<open>A load reads the storage once, and not at all for a falsy identifier.\<close>

lemma load_world:
  "snd (loadSavedTimestampsForVideo vid (s, w)) =
     (if falsy vid then w else w\<lparr>oplog := oplog w @ [OpGet]\<rparr>)"
  by (simp add: loadSavedTimestampsForVideo_def storageGet_def Let_def)

lemma load_absent_or_corrupt:
  "persistedMapping w (propertyKey vid) = None \<or>
     (\<exists>t. persistedMapping w (propertyKey vid) = Some (NonArr t)) \<Longrightarrow>
   savedTimestamps (fst (loadSavedTimestampsForVideo vid (s, w))) = []"
  by (auto simp: load_list)

lemma load_installs_only_arrays:
  "savedTimestamps (fst (loadSavedTimestampsForVideo vid (s, w))) \<noteq> [] \<Longrightarrow>
   persistedMapping w (propertyKey vid) =
     Some (Arr (savedTimestamps (fst (loadSavedTimestampsForVideo vid (s, w)))))"
  by (auto simp: load_list split: if_splits option.splits stored.splits)

lemma load_installs_array:
  "\<not> falsy vid \<Longrightarrow> \<not> getFails w \<Longrightarrow> persistedMapping w (propertyKey vid) = Some (Arr xs) \<Longrightarrow>
   savedTimestamps (fst (loadSavedTimestampsForVideo vid (s, w))) = xs"
  by (simp add: load_list)

section \<open>Persist and load\<close>

lemma assignProperty_other: "k \<noteq> key \<Longrightarrow> assignProperty obj key v k = obj k"
  by (simp add: assignProperty_def)

lemma assignProperty_ordinary:
  "key \<noteq> ''__proto__'' \<Longrightarrow> assignProperty obj key v = obj(key \<mapsto> v)"
  by (simp add: assignProperty_def)

text \<open>Persist leaves the entry of every other key as it was, whatever the storage calls do.\<close>

lemma persist_other_keys:
  "k \<noteq> propertyKey vid \<Longrightarrow>
   persistedMapping (snd (persistSavedTimestampsForVideo vid (s, w))) k = persistedMapping w k"
  by (simp add: persist_world assignProperty_other)

text \<open>
  Under every key but \<open>__proto__\<close>, and when both storage calls succeed, persist writes
  back the mapping it read with the entry of that key replaced by the in-memory list.
\<close>

lemma persist_writes_entry:
  "\<not> getFails w \<Longrightarrow> \<not> setFails w \<Longrightarrow> propertyKey vid \<noteq> ''__proto__'' \<Longrightarrow>
   persistedMapping (snd (persistSavedTimestampsForVideo vid (s, w))) =
     (persistedMapping w)(propertyKey vid \<mapsto> Arr (savedTimestamps s))"
  by (simp add: persist_world assignProperty_ordinary)

text \<open>
  For every identifier that is truthy and not \<open>__proto__\<close>, what persist stored is what a
  later load installs, in whatever session the load runs.
\<close>

lemma persist_then_load_roundtrip:
  assumes "x \<noteq> []" and "x \<noteq> ''__proto__''" and "\<not> getFails w" and "\<not> setFails w"
  shows "savedTimestamps
           (fst (loadSavedTimestampsForVideo (Some x)
                   (s', snd (persistSavedTimestampsForVideo (Some x) (s, w))))) = savedTimestamps s"
proof -
  let ?w = "snd (persistSavedTimestampsForVideo (Some x) (s, w))"
  from assms have key: "propertyKey (Some x) \<noteq> ''__proto__''"
    by (simp add: propertyKey_def)
  from assms(3,4) key
  have "persistedMapping ?w = (persistedMapping w)(propertyKey (Some x) \<mapsto> Arr (savedTimestamps s))"
    by (rule persist_writes_entry)
  then have entry: "persistedMapping ?w (propertyKey (Some x)) = Some (Arr (savedTimestamps s))"
    by simp
  from assms(3) have "\<not> getFails ?w"
    by (simp add: persist_world)
  with assms(1) entry show ?thesis
    by (simp add: load_list)
qed

lemma persist_then_load_example:
  "savedTimestamps
     (fst (loadSavedTimestampsForVideo (Some ''abc123'')
             (watching [], snd (persistSavedTimestampsForVideo (Some ''abc123'')
                (watching [Item bookmarkAt5, Item bookmarkIntro], storageWithOther)))))
   = [Item bookmarkAt5, Item bookmarkIntro]"
proof -
  have "''abc123'' \<noteq> []" and "''abc123'' \<noteq> ''__proto__''"
    and "\<not> getFails storageWithOther" and "\<not> setFails storageWithOther"
    by (simp_all add: storageWithOther_def)
  from persist_then_load_roundtrip [OF this]
  show ?thesis by (simp add: watching_def)
qed

text \<open>
  C1. Persisting the in-memory list under an identifier and then loading that identifier
  should give the same list back. The address \<open>https://www.youtube.com/watch?v=__proto__\<close>
  resolves to the identifier \<open>__proto__\<close>; with one bookmark in the list and a storage whose
  calls succeed, persist under that identifier followed by load of it leaves the
  in-memory list empty: the bookmark is lost.
\<close>

theorem persist_then_load_loses_proto_key:
  "getVideoIdFromUrl
     (\<lambda>a. Some \<lparr>hostname = ''www.youtube.com'', pathname = ''/watch'',
                 searchParams = [(''v'', ''__proto__'')]\<rparr>)
     ''https://www.youtube.com/watch?v=__proto__'' = Some ''__proto__'' \<and>
   savedTimestamps
     (fst (loadSavedTimestampsForVideo (Some ''__proto__'')
             (persistSavedTimestampsForVideo (Some ''__proto__'')
                (\<lparr>videoId = Some ''__proto__'', savedTimestamps = [Item bookmarkAt5],
                  container = True\<rparr>, freshStorage)))) = [] \<and>
   oplog
     (snd (loadSavedTimestampsForVideo (Some ''__proto__'')
             (persistSavedTimestampsForVideo (Some ''__proto__'')
                (\<lparr>videoId = Some ''__proto__'', savedTimestamps = [Item bookmarkAt5],
                  container = True\<rparr>, freshStorage)))) = [OpGet, OpSet, OpGet]"
  by code_simp

text \<open>
  C2. Persist should write back the mapping it read with the entry of its identifier
  replaced by the in-memory list. Under the identifier \<open>__proto__\<close>, beside another
  video's entry and with both storage calls succeeding, persist reads the mapping and
  writes it back as it was: the other entries are kept, and there is no entry for the
  identifier.
\<close>

theorem persist_drops_proto_key:
  "persistedMapping
     (snd (persistSavedTimestampsForVideo (Some ''__proto__'')
             (\<lparr>videoId = Some ''__proto__'', savedTimestamps = [Item bookmarkAt5],
               container = True\<rparr>, storageWithOther))) ''__proto__'' = None \<and>
   persistedMapping
     (snd (persistSavedTimestampsForVideo (Some ''__proto__'')
             (\<lparr>videoId = Some ''__proto__'', savedTimestamps = [Item bookmarkAt5],
               container = True\<rparr>, storageWithOther))) ''other'' = Some (Arr [Item bookmarkIntro]) \<and>
   oplog
     (snd (persistSavedTimestampsForVideo (Some ''__proto__'')
             (\<lparr>videoId = Some ''__proto__'', savedTimestamps = [Item bookmarkAt5],
               container = True\<rparr>, storageWithOther))) = [OpGet, OpSet]"
  by code_simp

text \<open>The same call under \<open>abc123\<close> stores the list and keeps the other entry.\<close>

lemma persist_example:
  "persistedMapping
     (snd (persistSavedTimestampsForVideo (Some ''abc123'')
             (watching [Item bookmarkAt5], storageWithOther))) ''other''
     = Some (Arr [Item bookmarkIntro]) \<and>
   persistedMapping
     (snd (persistSavedTimestampsForVideo (Some ''abc123'')
             (watching [Item bookmarkAt5], storageWithOther))) ''abc123''
     = Some (Arr [Item bookmarkAt5])"
  by code_simp

text \<open>
  C7. Load on corrupted storage: when the entry of the identifier is absent or is not an
  array, the in-memory list becomes empty; a non-empty list after a load is the array
  stored under the identifier, and a stored array is installed when the identifier is
  truthy and the read succeeds. The load always ends with a session, whose other fields
  are untouched: a failed read is caught and also gives the empty list.
\<close>

theorem load_defends_against_corruption:
  "((persistedMapping w (propertyKey vid) = None \<or>
     (\<exists>t. persistedMapping w (propertyKey vid) = Some (NonArr t))) \<longrightarrow>
      savedTimestamps (fst (loadSavedTimestampsForVideo vid (s, w))) = []) \<and>
   (savedTimestamps (fst (loadSavedTimestampsForVideo vid (s, w))) \<noteq> [] \<longrightarrow>
      persistedMapping w (propertyKey vid) =
        Some (Arr (savedTimestamps (fst (loadSavedTimestampsForVideo vid (s, w)))))) \<and>
   (\<not> falsy vid \<and> \<not> getFails w \<and> persistedMapping w (propertyKey vid) = Some (Arr xs) \<longrightarrow>
      savedTimestamps (fst (loadSavedTimestampsForVideo vid (s, w))) = xs) \<and>
   videoId (fst (loadSavedTimestampsForVideo vid (s, w))) = videoId s \<and>
   container (fst (loadSavedTimestampsForVideo vid (s, w))) = container s"
proof (intro conjI impI)
  show "videoId (fst (loadSavedTimestampsForVideo vid (s, w))) = videoId s"
    by (simp add: load_fst)
  show "container (fst (loadSavedTimestampsForVideo vid (s, w))) = container s"
    by (simp add: load_fst)
qed (auto intro: load_absent_or_corrupt load_installs_only_arrays load_installs_array)

theorem load_defends_against_corruption_witness:
  "savedTimestamps (fst (loadSavedTimestampsForVideo (Some ''broken'')
       (watching [Item bookmarkAt5], storageWithOther))) = [] \<and>
   savedTimestamps (fst (loadSavedTimestampsForVideo (Some ''missing'')
       (watching [Item bookmarkAt5], storageWithOther))) = [] \<and>
   savedTimestamps (fst (loadSavedTimestampsForVideo (Some ''other'')
       (watching [Item bookmarkAt5], storageWithOther))) = [Item bookmarkIntro]"
proof -
  let ?s = "watching [Item bookmarkAt5]"
  have br: "persistedMapping storageWithOther (propertyKey (Some ''broken'')) = None \<or>
     (\<exists>t. persistedMapping storageWithOther (propertyKey (Some ''broken'')) = Some (NonArr t))"
    by (simp add: persistedMapping_def storageWithOther_def propertyKey_def)
  have mi: "persistedMapping storageWithOther (propertyKey (Some ''missing'')) = None \<or>
     (\<exists>t. persistedMapping storageWithOther (propertyKey (Some ''missing'')) = Some (NonArr t))"
    by (simp add: persistedMapping_def storageWithOther_def propertyKey_def)
  have ot: "\<not> falsy (Some ''other'') \<and> \<not> getFails storageWithOther \<and>
     persistedMapping storageWithOther (propertyKey (Some ''other'')) = Some (Arr [Item bookmarkIntro])"
    by (simp add: persistedMapping_def storageWithOther_def propertyKey_def)
  from br load_defends_against_corruption
    [where w = storageWithOther and vid = "Some ''broken''" and s = ?s]
  have a: "savedTimestamps (fst (loadSavedTimestampsForVideo (Some ''broken'') (?s, storageWithOther))) = []"
    by blast
  from mi load_defends_against_corruption
    [where w = storageWithOther and vid = "Some ''missing''" and s = ?s]
  have b: "savedTimestamps (fst (loadSavedTimestampsForVideo (Some ''missing'') (?s, storageWithOther))) = []"
    by blast
  from ot load_defends_against_corruption
    [where w = storageWithOther and vid = "Some ''other''" and s = ?s and xs = "[Item bookmarkIntro]"]
  have c: "savedTimestamps (fst (loadSavedTimestampsForVideo (Some ''other'') (?s, storageWithOther)))
             = [Item bookmarkIntro]"
    by blast
  from a b c show ?thesis by blast
qed

section \<open>Identity resolver: auxiliary facts\<close>

lemma matchAt_nonempty: "matchAt lit s = Some m \<Longrightarrow> m \<noteq> []"
  by (auto simp: matchAt_def Let_def split: if_splits)

lemma regexMatch_nonempty: "regexMatch lit s = Some m \<Longrightarrow> m \<noteq> []"
proof (induction s)
  case Nil
  then show ?case by (simp add: matchAt_nonempty)
next
  case (Cons c cs)
  then show ?case
    by (auto split: option.splits dest: matchAt_nonempty)
qed

lemma queryParam_nonempty: "queryParam u = Some m \<Longrightarrow> m \<noteq> []"
  by (auto simp: queryParam_def falsy_def split: if_splits option.splits)

lemma shortLink_nonempty: "shortLink u = Some m \<Longrightarrow> m \<noteq> []"
  by (auto simp: shortLink_def split: if_splits list.splits)

lemma tryResolve_nonempty: "tryResolve parseURL urlString = Inr (Some m) \<Longrightarrow> m \<noteq> []"
  by (auto simp: tryResolve_def embedMatch_def shortsMatch_def
           split: option.splits
           dest: queryParam_nonempty regexMatch_nonempty shortLink_nonempty)

lemma firstMatch_simps [simp]:
  "firstMatch [] = None"
  "firstMatch (None # ms) = firstMatch ms"
  "firstMatch (Some v # ms) = Some v"
  by (simp_all add: firstMatch_def)

lemma firstMatch_single [simp]: "firstMatch [m] = m"
  by (cases m) simp_all

section \<open>Identity resolver\<close>

text \<open>
  C5. \<open>getVideoIdFromUrl\<close> returns the first match among, in the order of the source, the
  query parameter \<open>v\<close>, the embedded-player path segment, the short-form path segment and
  the short-link path segment (the short link comes last, not second); it returns \<open>null\<close>
  when none matches, and also where the URL constructor throws, so it never throws.
\<close>

theorem getVideoIdFromUrl_order:
  "getVideoIdFromUrl parseURL urlString =
     (case parseURL urlString of
        None \<Rightarrow> None
      | Some u \<Rightarrow> firstMatch [queryParam u, embedMatch u, shortsMatch u, shortLink u])"
  by (simp add: getVideoIdFromUrl_def tryResolve_def split: option.splits)

text \<open>The scenarios of the specification, an address without identifier, and a malformed one.\<close>

theorem getVideoIdFromUrl_order_witness:
  "getVideoIdFromUrl exampleParse ''https://www.youtube.com/watch?v=abc123'' = Some ''abc123'' \<and>
   getVideoIdFromUrl exampleParse ''https://youtu.be/abc123'' = Some ''abc123'' \<and>
   getVideoIdFromUrl exampleParse ''https://www.youtube.com/embed/abc123'' = Some ''abc123'' \<and>
   getVideoIdFromUrl exampleParse ''https://www.youtube.com/shorts/abc123'' = Some ''abc123'' \<and>
   getVideoIdFromUrl exampleParse ''https://www.youtube.com/'' = None \<and>
   getVideoIdFromUrl exampleParse ''not a url'' = None"
proof -
  have "(case exampleParse ''https://www.youtube.com/watch?v=abc123'' of None \<Rightarrow> None
         | Some u \<Rightarrow> firstMatch [queryParam u, embedMatch u, shortsMatch u, shortLink u]) = Some ''abc123''"
    by code_simp
  moreover have "(case exampleParse ''https://youtu.be/abc123'' of None \<Rightarrow> None
         | Some u \<Rightarrow> firstMatch [queryParam u, embedMatch u, shortsMatch u, shortLink u]) = Some ''abc123''"
    by code_simp
  moreover have "(case exampleParse ''https://www.youtube.com/embed/abc123'' of None \<Rightarrow> None
         | Some u \<Rightarrow> firstMatch [queryParam u, embedMatch u, shortsMatch u, shortLink u]) = Some ''abc123''"
    by code_simp
  moreover have "(case exampleParse ''https://www.youtube.com/shorts/abc123'' of None \<Rightarrow> None
         | Some u \<Rightarrow> firstMatch [queryParam u, embedMatch u, shortsMatch u, shortLink u]) = Some ''abc123''"
    by code_simp
  moreover have "(case exampleParse ''https://www.youtube.com/'' of None \<Rightarrow> None
         | Some u \<Rightarrow> firstMatch [queryParam u, embedMatch u, shortsMatch u, shortLink u]) = None"
    by code_simp
  moreover have "(case exampleParse ''not a url'' of None \<Rightarrow> None
         | Some u \<Rightarrow> firstMatch [queryParam u, embedMatch u, shortsMatch u, shortLink u]) = None"
    by code_simp
  ultimately show ?thesis
    by (simp only: getVideoIdFromUrl_order [of exampleParse] simp_thms)
qed

text \<open>
  On a short-link host whose path is \<open>/embed/abc123\<close> the source answers \<open>abc123\<close>, where
  the order of the specification (short link before embedded player) answers \<open>embed\<close>.
\<close>

theorem getVideoIdFromUrl_not_spec_order:
  "getVideoIdFromUrl exampleParse ''https://youtu.be/embed/abc123'' = Some ''abc123'' \<and>
   exampleParse ''https://youtu.be/embed/abc123''
     = Some \<lparr>hostname = ''youtu.be'', pathname = ''/embed/abc123'', searchParams = []\<rparr> \<and>
   resolveIdentifier_spec_order
     \<lparr>hostname = ''youtu.be'', pathname = ''/embed/abc123'', searchParams = []\<rparr> = Some ''embed''"
  by code_simp

text \<open>
  C10. \<open>getVideoIdFromUrl\<close> never returns the empty string: whatever the parser answers,
  the result is \<open>null\<close> or a non-empty string.
\<close>

theorem getVideoIdFromUrl_never_empty:
  "getVideoIdFromUrl parseURL urlString \<noteq> Some []"
proof
  assume "getVideoIdFromUrl parseURL urlString = Some []"
  then have "tryResolve parseURL urlString = Inr (Some [])"
    by (simp add: getVideoIdFromUrl_def split: sum.splits)
  then show False
    using tryResolve_nonempty by blast
qed

text \<open>An address with an empty query value and empty path segments.\<close>

theorem getVideoIdFromUrl_never_empty_witness:
  "getVideoIdFromUrl
     (\<lambda>a. Some \<lparr>hostname = ''youtu.be'', pathname = ''//'', searchParams = [(''v'', [])]\<rparr>)
     ''https://youtu.be//?v='' \<noteq> Some []"
  by (rule getVideoIdFromUrl_never_empty)

section \<open>Navigation\<close>

text \<open>
  C3. \<open>onUrlChange\<close>: when the identifier resolved from the location equals the current
  one, session and storage are unchanged. When it is \<open>null\<close>, the storage is unchanged and
  no call to it is made; and when it is \<open>null\<close> and the current one is not (the case that
  is left once the first has returned), the in-memory list is empty and the container is
  gone afterwards.
\<close>

theorem onUrlChange_unchanged_or_null:
  "(getVideoIdFromUrl parseURL (href pg) = videoId s \<longrightarrow>
      onUrlChange parseURL pg (s, w) = (s, w)) \<and>
   (getVideoIdFromUrl parseURL (href pg) = None \<longrightarrow>
      snd (onUrlChange parseURL pg (s, w)) = w) \<and>
   (getVideoIdFromUrl parseURL (href pg) = None \<and> videoId s \<noteq> None \<longrightarrow>
      savedTimestamps (fst (onUrlChange parseURL pg (s, w))) = [] \<and>
      \<not> container (fst (onUrlChange parseURL pg (s, w))) \<and>
      videoId (fst (onUrlChange parseURL pg (s, w))) = None)"
  by (auto simp: onUrlChange_def Let_def destroyContainer_def)

theorem onUrlChange_unchanged_or_null_witness:
  "onUrlChange exampleParse (pageAt ''https://www.youtube.com/watch?v=abc123'')
     (watching [Item bookmarkAt5], storageWithOther) = (watching [Item bookmarkAt5], storageWithOther) \<and>
   snd (onUrlChange exampleParse (pageAt ''https://www.youtube.com/'')
          (watching [Item bookmarkAt5], storageWithOther)) = storageWithOther \<and>
   savedTimestamps (fst (onUrlChange exampleParse (pageAt ''https://www.youtube.com/'')
          (watching [Item bookmarkAt5], storageWithOther))) = [] \<and>
   \<not> container (fst (onUrlChange exampleParse (pageAt ''https://www.youtube.com/'')
          (watching [Item bookmarkAt5], storageWithOther)))"
proof -
  have same: "getVideoIdFromUrl exampleParse (href (pageAt ''https://www.youtube.com/watch?v=abc123''))
                = videoId (watching [Item bookmarkAt5])"
    by code_simp
  have null: "getVideoIdFromUrl exampleParse (href (pageAt ''https://www.youtube.com/'')) = None"
    by code_simp
  have cur: "videoId (watching [Item bookmarkAt5]) \<noteq> None"
    by (simp add: watching_def)
  from same null cur
    onUrlChange_unchanged_or_null [of exampleParse "pageAt ''https://www.youtube.com/watch?v=abc123''"
      "watching [Item bookmarkAt5]" storageWithOther]
    onUrlChange_unchanged_or_null [of exampleParse "pageAt ''https://www.youtube.com/''"
      "watching [Item bookmarkAt5]" storageWithOther]
  show ?thesis by blast
qed

section \<open>Timestamps: auxiliary facts\<close>

lemma createContainer_fields [simp]:
  "savedTimestamps (createContainerIfNeeded pg s) = savedTimestamps s"
  "videoId (createContainerIfNeeded pg s) = videoId s"
  by (simp_all add: createContainerIfNeeded_def)

lemma render_fields [simp]:
  "savedTimestamps (renderTimestampList pg s) = savedTimestamps s"
  "videoId (renderTimestampList pg s) = videoId s"
  by (simp_all add: renderTimestampList_def)

text \<open>The guard of \<open>deleteTimestamp\<close> against the interval: it lets \<open>NaN\<close> through.\<close>

lemma guard_outside:
  "index \<noteq> NaN \<Longrightarrow> \<not> withinRange index n \<Longrightarrow> numLess index 0 \<or> numGreaterEq index (of_nat n)"
  by (cases index) (auto simp: withinRange_def numLess_def numGreaterEq_def)

lemma guard_within:
  "withinRange (Fin q) n \<Longrightarrow> \<not> (numLess (Fin q) 0 \<or> numGreaterEq (Fin q) (of_nat n))"
  by (simp add: withinRange_def numLess_def numGreaterEq_def)

lemma spliceOne_within:
  assumes "withinRange (Fin q) (length xs)"
  shows "spliceOne (Fin q) xs = take (nat \<lfloor>q\<rfloor>) xs @ drop (Suc (nat \<lfloor>q\<rfloor>)) xs"
proof -
  from assms have q: "0 \<le> q" "q < of_nat (length xs)"
    by (simp_all add: withinRange_def)
  then have lt: "\<lfloor>q\<rfloor> < int (length xs)"
    by (simp add: floor_less_iff)
  from q have ge: "0 \<le> \<lfloor>q\<rfloor>"
    by simp
  have start: "spliceStart (length xs) (Fin q) = nat \<lfloor>q\<rfloor>"
    using q lt ge by (simp add: spliceStart_def toIntegerOrInfinity_def min_def)
  from lt ge have "nat \<lfloor>q\<rfloor> < length xs"
    by linarith
  then have "min 1 (length xs - nat \<lfloor>q\<rfloor>) = 1"
    by simp
  with start show ?thesis
    by (simp add: spliceOne_def Let_def)
qed

lemma deleteTimestamp_outside:
  "index \<noteq> NaN \<Longrightarrow> \<not> withinRange index (length (savedTimestamps s)) \<Longrightarrow>
   deleteTimestamp pg index (s, w) = (s, w)"
  using guard_outside [of index "length (savedTimestamps s)"]
  by (simp add: deleteTimestamp_def)

lemma deleteTimestamp_within:
  assumes "withinRange (Fin q) (length (savedTimestamps s))"
  shows "deleteTimestamp pg (Fin q) (s, w) =
     (let s1 = s\<lparr>savedTimestamps :=
                   take (nat \<lfloor>q\<rfloor>) (savedTimestamps s) @ drop (Suc (nat \<lfloor>q\<rfloor>)) (savedTimestamps s)\<rparr>
      in (renderTimestampList pg s1, snd (persistSavedTimestampsForVideo (videoId s) (s1, w))))"
  using guard_within [OF assms] spliceOne_within [OF assms]
  by (simp add: deleteTimestamp_def Let_def persist_session)

lemma arrayIndex_nat:
  assumes "i < 2 ^ 32 - 1"
  shows "arrayIndex (Fin (of_nat i)) = Some i"
proof -
  from assms have "(of_nat i :: rat) < of_nat (2 ^ 32 - 1)"
    by (simp only: of_nat_less_iff)
  then show ?thesis
    by (simp add: arrayIndex_def isInteger_def)
qed

text \<open>
  The note handler at an index in range: only the note of that bookmark changes, to the
  trimmed text of the field.
\<close>

lemma noteFocusout_in_range:
  assumes "i < length (savedTimestamps s)" and "length (savedTimestamps s) < 2 ^ 32"
    and "savedTimestamps s ! i = Item b"
  shows "savedTimestamps (fst (noteFocusout pg True (Fin (of_nat i)) v (s, w))) =
           (savedTimestamps s)[i := Item (b\<lparr>note_text := Some (trim v)\<rparr>)]"
proof -
  from assms have "i < 2 ^ 32 - 1" by simp
  then have idx: "arrayIndex (Fin (of_nat i)) = Some i"
    by (rule arrayIndex_nat)
  with assms show ?thesis
    by (simp add: noteFocusout_def Let_def arrayGet_def arraySet_def persist_session)
qed

text \<open>
  The note handler at an integer index at or past the end: the list grows to end at that
  index, whatever the text.
\<close>

lemma noteFocusout_past_end_grows:
  assumes "length (savedTimestamps s) \<le> i" and "i < 2 ^ 32 - 1"
  shows "length (savedTimestamps (fst (noteFocusout pg True (Fin (of_nat i)) v (s, w)))) = Suc i"
proof -
  from assms(2) have idx: "arrayIndex (Fin (of_nat i)) = Some i"
    by (rule arrayIndex_nat)
  with assms(1) show ?thesis
    by (simp add: noteFocusout_def Let_def arrayGet_def arraySet_def persist_session)
qed

section \<open>Timestamps\<close>

text \<open>
  C9. With no active identifier (\<open>videoId\<close> is \<open>null\<close>), \<open>saveTimestamp\<close> changes nothing for
  any time and note: the in-memory list gets no bookmark and the storage is not called.
\<close>

theorem saveTimestamp_without_identifier:
  "videoId s = None \<Longrightarrow> saveTimestamp pg t n (s, w) = (s, w)"
  by (simp add: saveTimestamp_def)

theorem saveTimestamp_without_identifier_witness:
  "saveTimestamp (pageAt ''https://www.youtube.com/'') (Fin 5) (Some ''intro'')
     (\<lparr>videoId = None, savedTimestamps = [], container = False\<rparr>, storageWithOther)
   = (\<lparr>videoId = None, savedTimestamps = [], container = False\<rparr>, storageWithOther)"
proof -
  have "videoId \<lparr>videoId = None, savedTimestamps = [], container = False\<rparr> = None"
    by simp
  from saveTimestamp_without_identifier [OF this] show ?thesis .
qed

text \<open>
  C6. \<open>deleteTimestamp\<close>: for every number index that lies outside \<open>[0, length)\<close>, session
  and storage are unchanged and the storage is not called; for every index inside the
  interval, the bookmark at that position (the integer part of the index) is removed, the
  others keep their order, and the new list is persisted under the active identifier.
  The index is the \<open>Number(li.dataset.index)\<close> of a drawn row, a non-negative integer; the
  statement covers every number except the value \<open>NaN\<close>, which no row index is.
\<close>

theorem deleteTimestamp_validates_index:
  "(index \<noteq> NaN \<and> \<not> withinRange index (length (savedTimestamps s)) \<longrightarrow>
      deleteTimestamp pg index (s, w) = (s, w)) \<and>
   (withinRange (Fin q) (length (savedTimestamps s)) \<longrightarrow>
      savedTimestamps (fst (deleteTimestamp pg (Fin q) (s, w))) =
        take (nat \<lfloor>q\<rfloor>) (savedTimestamps s) @ drop (Suc (nat \<lfloor>q\<rfloor>)) (savedTimestamps s) \<and>
      snd (deleteTimestamp pg (Fin q) (s, w)) =
        snd (persistSavedTimestampsForVideo (videoId s)
               (s\<lparr>savedTimestamps :=
                    take (nat \<lfloor>q\<rfloor>) (savedTimestamps s) @ drop (Suc (nat \<lfloor>q\<rfloor>)) (savedTimestamps s)\<rparr>, w)))"
  by (simp add: deleteTimestamp_outside deleteTimestamp_within Let_def)

text \<open>Indices 2 and -1 on a list of two leave everything as it was; index 0 removes the first.\<close>

theorem deleteTimestamp_validates_index_witness:
  "deleteTimestamp (pageAt ''https://www.youtube.com/watch?v=abc123'') (Fin 2)
     (watching [Item bookmarkAt5, Item bookmarkIntro], storageWithOther)
     = (watching [Item bookmarkAt5, Item bookmarkIntro], storageWithOther) \<and>
   deleteTimestamp (pageAt ''https://www.youtube.com/watch?v=abc123'') (Fin (- 1))
     (watching [Item bookmarkAt5, Item bookmarkIntro], storageWithOther)
     = (watching [Item bookmarkAt5, Item bookmarkIntro], storageWithOther) \<and>
   savedTimestamps
     (fst (deleteTimestamp (pageAt ''https://www.youtube.com/watch?v=abc123'') (Fin 0)
             (watching [Item bookmarkAt5, Item bookmarkIntro], storageWithOther)))
     = [Item bookmarkIntro] \<and>
   persistedMapping
     (snd (deleteTimestamp (pageAt ''https://www.youtube.com/watch?v=abc123'') (Fin 0)
             (watching [Item bookmarkAt5, Item bookmarkIntro], storageWithOther))) ''abc123''
     = Some (Arr [Item bookmarkIntro])"
proof -
  let ?pg = "pageAt ''https://www.youtube.com/watch?v=abc123''"
  let ?s = "watching [Item bookmarkAt5, Item bookmarkIntro]"
  have len: "length (savedTimestamps ?s) = 2"
    by (simp add: watching_def)
  have out2: "Fin 2 \<noteq> NaN \<and> \<not> withinRange (Fin 2) (length (savedTimestamps ?s))"
    by (simp add: len withinRange_def)
  have outm: "Fin (- 1) \<noteq> NaN \<and> \<not> withinRange (Fin (- 1)) (length (savedTimestamps ?s))"
    by (simp add: len withinRange_def)
  have in0: "withinRange (Fin 0) (length (savedTimestamps ?s))"
    by (simp add: len withinRange_def)
  from out2 deleteTimestamp_validates_index
    [where index = "Fin 2" and s = ?s and pg = ?pg and w = storageWithOther]
  have a: "deleteTimestamp ?pg (Fin 2) (?s, storageWithOther) = (?s, storageWithOther)"
    by blast
  from outm deleteTimestamp_validates_index
    [where index = "Fin (- 1)" and s = ?s and pg = ?pg and w = storageWithOther]
  have b: "deleteTimestamp ?pg (Fin (- 1)) (?s, storageWithOther) = (?s, storageWithOther)"
    by blast
  from in0 deleteTimestamp_validates_index
    [where q = 0 and s = ?s and pg = ?pg and w = storageWithOther]
  have c: "savedTimestamps (fst (deleteTimestamp ?pg (Fin 0) (?s, storageWithOther))) =
        take (nat \<lfloor>0::rat\<rfloor>) (savedTimestamps ?s) @ drop (Suc (nat \<lfloor>0::rat\<rfloor>)) (savedTimestamps ?s)"
    and d: "snd (deleteTimestamp ?pg (Fin 0) (?s, storageWithOther)) =
        snd (persistSavedTimestampsForVideo (videoId ?s)
               (?s\<lparr>savedTimestamps :=
                    take (nat \<lfloor>0::rat\<rfloor>) (savedTimestamps ?s)
                    @ drop (Suc (nat \<lfloor>0::rat\<rfloor>)) (savedTimestamps ?s)\<rparr>, storageWithOther))"
    by blast+
  from c have c': "savedTimestamps (fst (deleteTimestamp ?pg (Fin 0) (?s, storageWithOther)))
                     = [Item bookmarkIntro]"
    by (simp add: watching_def)
  from d have d': "persistedMapping (snd (deleteTimestamp ?pg (Fin 0) (?s, storageWithOther))) ''abc123''
                     = Some (Arr [Item bookmarkIntro])"
    by (simp add: watching_def persist_world storageWithOther_def propertyKey_def persistedMapping_def
          assignProperty_def)
  from a b c' d' show ?thesis by blast
qed

text \<open>
  On \<open>NaN\<close>, which the click handler never passes, both comparisons of the guard are false
  and \<open>splice\<close> starts at 0.
\<close>

lemma deleteTimestamp_NaN_removes_first:
  "\<not> withinRange NaN (length (savedTimestamps (watching [Item bookmarkAt5]))) \<and>
   savedTimestamps
     (fst (deleteTimestamp (pageAt ''https://www.youtube.com/watch?v=abc123'') NaN
             (watching [Item bookmarkAt5], freshStorage))) = [] \<and>
   oplog (snd (deleteTimestamp (pageAt ''https://www.youtube.com/watch?v=abc123'') NaN
             (watching [Item bookmarkAt5], freshStorage))) = [OpGet, OpSet]"
  by code_simp

text \<open>
  C4. The note handler does not validate its index. With one bookmark in the list and
  index 1 (outside \<open>[0, 1)\<close>), the list does not stay as it was: it gets a second object that
  has the note and no time, and this list is persisted under the active identifier.
\<close>

theorem noteFocusout_past_the_end:
  "savedTimestamps
     (fst (noteFocusout (pageAt ''https://www.youtube.com/watch?v=abc123'') True (Fin 1) ''x''
             (watching [Item bookmarkAt5], freshStorage)))
     = [Item bookmarkAt5, Item \<lparr>time = None, note_text = Some ''x''\<rparr>] \<and>
   persistedMapping
     (snd (noteFocusout (pageAt ''https://www.youtube.com/watch?v=abc123'') True (Fin 1) ''x''
             (watching [Item bookmarkAt5], freshStorage))) ''abc123''
     = Some (Arr [Item bookmarkAt5, Item \<lparr>time = None, note_text = Some ''x''\<rparr>])"
  by code_simp

section \<open>Export: auxiliary facts\<close>

lemma csvText_foldl:
  "foldl (\<lambda>csv sl. case sl of Hole \<Rightarrow> csv | Item b \<Rightarrow> csv @ csvRow other b) acc xs =
     acc @ concat (map (\<lambda>sl. case sl of Hole \<Rightarrow> [] | Item b \<Rightarrow> csvRow other b) xs)"
  by (induction xs arbitrary: acc) (simp_all split: slot.splits)

lemma csvText_rows:
  "csvText other xs =
     csvHeader @ concat (map (\<lambda>sl. case sl of Hole \<Rightarrow> [] | Item b \<Rightarrow> csvRow other b) xs)"
  by (simp add: csvText_def csvText_foldl)

lemma csvText_two_bookmarks:
  \<open>csvText other [Item \<lparr>time = Some (Fin 5), note_text = Some []\<rparr>,
                    Item \<lparr>time = Some (Fin 130), note_text = Some ''intro''\<rparr>] =
     ''TimeSeconds,TimeFormatted,Note\<newline>5,"00:05",""\<newline>130,"02:10","intro"\<newline>''\<close>
  by code_simp

lemma export_nonempty:
  "savedTimestamps s \<noteq> [] \<Longrightarrow>
   \<exists>name. exportTimestampsAsCSV other pg s = Download name (csvText other (savedTimestamps s))"
  by (simp add: exportTimestampsAsCSV_def Let_def)

lemma escapeQuotes_Cons:
  "escapeQuotes (c # n) = (if c = CHR 0x22 then [CHR 0x22, CHR 0x22] else [c]) @ escapeQuotes n"
  by (simp add: escapeQuotes_def)

section \<open>Export\<close>

text \<open>
  C8. For the list of the two bookmarks (time 5, empty note) and (time 130, note
  \<open>intro\<close>), the exported text is the header line, then \<open>5,"00:05",""\<close> and
  \<open>130,"02:10","intro"\<close>, each line ended by a newline and with no space before it. For
  any non-empty list the text is the header followed by one row per bookmark in list
  order, and in a note every double quote is written twice, every other character once.
\<close>

theorem exportTimestampsAsCSV_scenario:
  \<open>(savedTimestamps s = [Item \<lparr>time = Some (Fin 5), note_text = Some []\<rparr>,
                          Item \<lparr>time = Some (Fin 130), note_text = Some ''intro''\<rparr>] \<longrightarrow>
      (\<exists>name. exportTimestampsAsCSV other pg s =
         Download name ''TimeSeconds,TimeFormatted,Note\<newline>5,"00:05",""\<newline>130,"02:10","intro"\<newline>'')) \<and>
    (savedTimestamps s \<noteq> [] \<longrightarrow>
      (\<exists>name. exportTimestampsAsCSV other pg s =
         Download name
           (''TimeSeconds,TimeFormatted,Note\<newline>'' @
            concat (map (\<lambda>sl. case sl of Hole \<Rightarrow> [] | Item b \<Rightarrow> csvRow other b) (savedTimestamps s))))) \<and>
    escapeQuotes [] = [] \<and>
    escapeQuotes (c # n) = (if c = CHR 0x22 then [CHR 0x22, CHR 0x22] else [c]) @ escapeQuotes n\<close>
proof (intro conjI impI)
  assume a: \<open>savedTimestamps s = [Item \<lparr>time = Some (Fin 5), note_text = Some []\<rparr>,
                          Item \<lparr>time = Some (Fin 130), note_text = Some ''intro''\<rparr>]\<close>
  then have "savedTimestamps s \<noteq> []" by simp
  from export_nonempty [OF this, of other pg]
  show \<open>\<exists>name. exportTimestampsAsCSV other pg s =
         Download name ''TimeSeconds,TimeFormatted,Note\<newline>5,"00:05",""\<newline>130,"02:10","intro"\<newline>''\<close>
    by (simp only: a csvText_two_bookmarks)
next
  assume "savedTimestamps s \<noteq> []"
  from export_nonempty [OF this, of other pg]
  show \<open>\<exists>name. exportTimestampsAsCSV other pg s =
         Download name
           (''TimeSeconds,TimeFormatted,Note\<newline>'' @
            concat (map (\<lambda>sl. case sl of Hole \<Rightarrow> [] | Item b \<Rightarrow> csvRow other b) (savedTimestamps s)))\<close>
    by (simp add: csvText_rows csvHeader_def)
next
  show "escapeQuotes [] = []"
    by (simp add: escapeQuotes_def)
next
  show "escapeQuotes (c # n) = (if c = CHR 0x22 then [CHR 0x22, CHR 0x22] else [c]) @ escapeQuotes n"
    by (rule escapeQuotes_Cons)
qed

theorem exportTimestampsAsCSV_scenario_witness:
  \<open>(\<exists>name. exportTimestampsAsCSV (\<lambda>q. []) (pageAt ''https://www.youtube.com/watch?v=abc123'')
      (watching [Item \<lparr>time = Some (Fin 5), note_text = Some []\<rparr>,
                 Item \<lparr>time = Some (Fin 130), note_text = Some ''intro''\<rparr>])
    = Download name
        ''TimeSeconds,TimeFormatted,Note\<newline>5,"00:05",""\<newline>130,"02:10","intro"\<newline>'') \<and>
    escapeQuotes ''say "hi"'' = ''say ""hi""''\<close>
proof -
  let ?s = \<open>watching [Item \<lparr>time = Some (Fin 5), note_text = Some []\<rparr>,
                 Item \<lparr>time = Some (Fin 130), note_text = Some ''intro''\<rparr>]\<close>
  have h: \<open>savedTimestamps ?s = [Item \<lparr>time = Some (Fin 5), note_text = Some []\<rparr>,
                 Item \<lparr>time = Some (Fin 130), note_text = Some ''intro''\<rparr>]\<close>
    by (simp add: watching_def)
  note th = exportTimestampsAsCSV_scenario [where s = ?s and other = "\<lambda>q. []"
      and pg = "pageAt ''https://www.youtube.com/watch?v=abc123''"]
  from th h have a: \<open>\<exists>name. exportTimestampsAsCSV (\<lambda>q. [])
      (pageAt ''https://www.youtube.com/watch?v=abc123'') ?s
    = Download name
        ''TimeSeconds,TimeFormatted,Note\<newline>5,"00:05",""\<newline>130,"02:10","intro"\<newline>''\<close>
    by blast
  have b: \<open>escapeQuotes ''say "hi"'' = ''say ""hi""''\<close>
    by code_simp
  from a b show ?thesis by blast
qed

text \<open>
  The text the source produces for the two bookmarks, and that it is not the text with a
  space after the empty note of the first row.
\<close>

theorem exportTimestampsAsCSV_spec_text_differs:
  \<open>exportTimestampsAsCSV (\<lambda>q. []) (pageAt ''https://www.youtube.com/watch?v=abc123'')
      (watching [Item \<lparr>time = Some (Fin 5), note_text = Some []\<rparr>,
                 Item \<lparr>time = Some (Fin 130), note_text = Some ''intro''\<rparr>])
    = Download ''timestamps_Demo.csv''
        ''TimeSeconds,TimeFormatted,Note\<newline>5,"00:05",""\<newline>130,"02:10","intro"\<newline>'' \<and>
    ''TimeSeconds,TimeFormatted,Note\<newline>5,"00:05",""\<newline>130,"02:10","intro"\<newline>''
      \<noteq> ''TimeSeconds,TimeFormatted,Note\<newline>5,"00:05","" \<newline>130,"02:10","intro"\<newline>''\<close>
  by code_simp

end
